theory Spec2Isabelle
  imports Main "HOL-Library.Sublist"
begin

section \<open>The Jedi facade of SublimeJEDI (sublime\_jedi/facade.py)\<close>

text \<open>
  The module adapts the result objects of the Jedi analysis engine to the tuples and
  strings an editor renders. The engine itself is not part of the module: its answers
  are inputs of the model. A Python \<open>str\<close> is a \<open>string\<close>, Python's unbounded
  \<open>int\<close> is \<open>int\<close>, \<open>None\<close> in a position that may hold a value is \<open>option\<close>, and a
  raised exception is the left injection of a sum.
\<close>

subsection \<open>Python string operations used by the module\<close>

definition tab :: char where
  "tab = CHR 0x09"

definition newline :: char where
  "newline = CHR 0x0A"

text \<open>\<open>str.isspace\<close> on one character, for the ASCII range: TAB, LF, VT, FF, CR,
  the separators 0x1C to 0x1F and the blank.\<close>

definition py_isspace :: "char \<Rightarrow> bool" where
  "py_isspace c =
     (let n = (of_char c :: nat) in (9 \<le> n \<and> n \<le> 13) \<or> (28 \<le> n \<and> n \<le> 32))"

text \<open>\<open>s.lstrip()\<close>\<close>

definition lstrip :: "string \<Rightarrow> string" where
  "lstrip s = dropWhile py_isspace s"

text \<open>\<open>s.startswith(p)\<close> and \<open>s.endswith(p)\<close>\<close>

definition startswith :: "string \<Rightarrow> string \<Rightarrow> bool" where
  "startswith s p = (take (length p) s = p)"

definition endswith :: "string \<Rightarrow> string \<Rightarrow> bool" where
  "endswith s p = (length p \<le> length s \<and> drop (length s - length p) s = p)"

text \<open>\<open>s.replace(old, new)\<close>: every occurrence of \<open>old\<close>, found from the left
  without overlap, becomes \<open>new\<close>. With an empty \<open>old\<close> Python puts \<open>new\<close> before
  every character and at the end.\<close>

function py_replace :: "string \<Rightarrow> string \<Rightarrow> string \<Rightarrow> string" where
  "py_replace old new s =
     (if old = [] then new @ concat (map (\<lambda>c. c # new) s)
      else if s = [] then []
      else if startswith s old then new @ py_replace old new (drop (length old) s)
      else hd s # py_replace old new (tl s))"
  by pat_completeness auto
termination
  by (relation "measure (\<lambda>(old, new, s). length s)") auto

declare py_replace.simps [simp del]

text \<open>\<open>s.rsplit(sep, 1)\<close> for a separator of one character: the text before the last
  occurrence of the separator and the text after it, or the whole string alone when the
  separator does not occur.\<close>

definition rsplit1 :: "char \<Rightarrow> string \<Rightarrow> string list" where
  "rsplit1 sep s =
     (if sep \<in> set s
      then [rev (tl (dropWhile (\<lambda>c. c \<noteq> sep) (rev s))),
            rev (takeWhile (\<lambda>c. c \<noteq> sep) (rev s))]
      else [s])"

text \<open>\<open>s.split(sep)[0]\<close> for a non-empty separator: the text before the first
  occurrence of \<open>sep\<close>, or all of \<open>s\<close>.\<close>

fun split_head :: "string \<Rightarrow> string \<Rightarrow> string" where
  "split_head sep [] = []"
| "split_head sep (c # cs) =
     (if startswith (c # cs) sep then [] else c # split_head sep cs)"

text \<open>\<open>sep.join(xs)\<close>\<close>

fun py_join :: "string \<Rightarrow> string list \<Rightarrow> string" where
  "py_join sep [] = []"
| "py_join sep [x] = x"
| "py_join sep (x # y # ys) = x @ sep @ py_join sep (y # ys)"

text \<open>\<open>'%d' % n\<close> for a natural number: its decimal digits.\<close>

definition digit :: "nat \<Rightarrow> char" where
  "digit d = char_of (48 + d)"

function decimal :: "nat \<Rightarrow> string" where
  "decimal n = (if n < 10 then [digit n] else decimal (n div 10) @ [digit (n mod 10)])"
  by pat_completeness auto
termination
  by (relation "measure (\<lambda>n. n)") auto

declare decimal.simps [simp del]

subsection \<open>Exceptions and indexing\<close>

text \<open>The instances of Python's \<open>Exception\<close> class that the module meets: the two it
  raises or catches by name, and any other one coming out of the engine.\<close>

datatype py_exception = AttributeError | IndexError | OtherError string

text \<open>\<open>xs[i]\<close> for \<open>i \<ge> 0\<close>\<close>

definition py_index :: "'a list \<Rightarrow> nat \<Rightarrow> py_exception + 'a" where
  "py_index xs i = (if i < length xs then Inr (xs ! i) else Inl IndexError)"

subsection \<open>The engine's objects\<close>

text \<open>Completion, Definition and parameter objects of Jedi share one base class; the
  fields are the attributes the module reads. \<open>in_builtin_module\<close> and \<open>docstring\<close>
  are methods without arguments.\<close>

record base_definition =
  name :: string
  type :: string
  description :: string
  module_path :: string
  line :: int
  column :: int
  in_builtin_module :: bool
  docstring :: string

record call_signature =
  params :: "base_definition list"

text \<open>\<open>jedi.Script\<close>, built for one source buffer and one cursor position: each field
  is the outcome of the method of that name, a list of objects or an exception.\<close>

record jedi_script =
  completions :: "py_exception + base_definition list"
  goto_assignments :: "py_exception + base_definition list"
  goto_definitions :: "py_exception + base_definition list"
  usages :: "py_exception + base_definition list"
  call_signatures :: "py_exception + call_signature list"

subsection \<open>format\_completion\<close>

definition format_completion :: "base_definition \<Rightarrow> string \<times> string" where
  "format_completion complete =
     (let (display, insert) = (name complete @ [tab] @ type complete, name complete)
      in (display, insert))"

subsection \<open>get\_function\_parameters\<close>

text \<open>The body of \<open>for param in call_signature.params\<close>, with the list \<open>params\<close>
  being built as the last argument. \<open>continue\<close> goes on with the same list,
  \<open>params.append\<close> with the extended one. The condition of the first \<open>if\<close> reads,
  by Python's precedence, \<open>(not with_keywords and param.name == '...') or
  ('*' in param.description)\<close>. The debug line written for each parameter has no
  effect on the result and is left out.\<close>

fun for_param ::
  "bool \<Rightarrow> base_definition list \<Rightarrow> (string \<times> string option) list
     \<Rightarrow> py_exception + (string \<times> string option) list" where
  "for_param with_keywords [] acc = Inr acc"
| "for_param with_keywords (param # rest) acc =
     (if (\<not> with_keywords \<and> name param = ''...'') \<or> CHR ''*'' \<in> set (description param)
      then for_param with_keywords rest acc
      else if name param = [] \<or> name param \<in> {''self'', ''...''}
      then for_param with_keywords rest acc
      else
        let param_description = py_replace ''param '' [] (description param);
            is_keyword = (CHR ''='' \<in> set param_description)
        in
          if is_keyword \<and> with_keywords then
            (case py_index (rsplit1 (CHR ''='') param_description) 1 of
               Inl e \<Rightarrow> Inl e
             | Inr t \<Rightarrow>
                 let default_value = lstrip t
                 in for_param with_keywords rest (acc @ [(name param, Some default_value)]))
          else if is_keyword \<and> \<not> with_keywords then
            for_param with_keywords rest acc
          else
            for_param with_keywords rest (acc @ [(name param, None)]))"

text \<open>The argument is \<open>None\<close> or a call signature object (which is true as a
  condition).\<close>

definition get_function_parameters ::
  "call_signature option \<Rightarrow> bool \<Rightarrow> py_exception + (string \<times> string option) list" where
  "get_function_parameters call_signature with_keywords =
     (case call_signature of
        None \<Rightarrow> Inr []
      | Some cs \<Rightarrow> for_param with_keywords (params cs) [])"

subsection \<open>The facade\<close>

text \<open>A \<open>JediFacade\<close> object holds the script built by its constructor and the
  setting for the completion of call arguments.\<close>

record jedi_facade =
  script :: jedi_script
  auto_complete_function_params :: string

text \<open>What an action hands back to the editor: locations \<open>(path, line, column)\<close>,
  completions \<open>(display, insert)\<close>, a string, or \<open>None\<close>.\<close>

datatype py_value =
  PyNone
| PyStr string
| Locations "(string \<times> int \<times> int) list"
| Completions "(string \<times> string) list"

text \<open>The comprehension shared by \<open>_goto\<close> and \<open>_usages\<close>:
  \<open>[(i.module_path, i.line, i.column + 1) for i in xs if not i.in_builtin_module()]\<close>\<close>

definition locations :: "base_definition list \<Rightarrow> (string \<times> int \<times> int) list" where
  "locations xs =
     map (\<lambda>i. (module_path i, line i, column i + 1))
       (filter (\<lambda>i. \<not> in_builtin_module i) xs)"

text \<open>\<open>JediFacade._goto\<close>; Python's \<open>all\<close> over no element is true.\<close>

definition priv_goto :: "jedi_facade \<Rightarrow> py_exception + (string \<times> int \<times> int) list" where
  "priv_goto self =
     (case goto_assignments (script self) of
        Inl e \<Rightarrow> Inl e
      | Inr definitions \<Rightarrow>
          if list_all (\<lambda>d. type d = ''import'') definitions
          then (case goto_definitions (script self) of
                  Inl e \<Rightarrow> Inl e
                | Inr definitions' \<Rightarrow> Inr (locations definitions'))
          else Inr (locations definitions))"

text \<open>\<open>JediFacade._usages\<close>\<close>

definition priv_usages :: "jedi_facade \<Rightarrow> py_exception + (string \<times> int \<times> int) list" where
  "priv_usages self =
     (case usages (script self) of
        Inl e \<Rightarrow> Inl e
      | Inr us \<Rightarrow> Inr (locations us))"

text \<open>\<open>JediFacade._completion\<close>, a generator: the engine is asked when the first
  element is requested, and every element is requested by the one caller.\<close>

definition priv_completion :: "jedi_facade \<Rightarrow> py_exception + (string \<times> string) list" where
  "priv_completion self =
     (case completions (script self) of
        Inl e \<Rightarrow> Inl e
      | Inr cs \<Rightarrow> Inr (map format_completion cs))"

text \<open>\<open>JediFacade._docstring\<close>; without a definition the method ends without a
  \<open>return\<close>, which is \<open>None\<close>. The engine's answer is a list, as the assertion
  requires.\<close>

definition priv_docstring :: "jedi_facade \<Rightarrow> bool \<Rightarrow> py_exception + py_value" where
  "priv_docstring self signature =
     (case goto_definitions (script self) of
        Inl e \<Rightarrow> Inl e
      | Inr defs \<Rightarrow>
          (case defs of
             [] \<Rightarrow> Inr PyNone
           | d # _ \<Rightarrow>
               if signature then
                 let calltip_signature = split_head [newline, newline] (docstring d)
                 in Inr (PyStr (py_replace '' = '' ''=''
                                 (py_replace [newline] '' '' calltip_signature)))
               else Inr (PyStr (docstring d))))"

text \<open>The loop of \<open>JediFacade._complete_call_assigments\<close> over
  \<open>enumerate(parameters)\<close>, one yielded pair for each parameter.\<close>

definition call_assigments ::
  "(string \<times> string option) list \<Rightarrow> bool \<Rightarrow> (string \<times> string) list" where
  "call_assigments parameters with_values =
     map (\<lambda>(index, n, v).
            case v of
              Some d \<Rightarrow>
                if with_values
                then (n @ tab # ''param'', n @ ''=${'' @ decimal (index + 1) @ '':'' @ d @ ''}'')
                else (n @ tab # ''param'', ''${'' @ decimal (index + 1) @ '':'' @ n @ ''}'')
            | None \<Rightarrow> (n @ tab # ''param'', ''${'' @ decimal (index + 1) @ '':'' @ n @ ''}''))
       (enumerate 0 parameters)"

text \<open>\<open>JediFacade._complete_call_assigments\<close>, a generator. Only the call of the
  engine and the indexing are inside the \<open>try\<close>: an \<open>IndexError\<close> from either ends
  the generator with no element, any other exception goes on to the caller.\<close>

definition priv_complete_call_assigments ::
  "jedi_facade \<Rightarrow> bool \<Rightarrow> bool \<Rightarrow> py_exception + (string \<times> string) list" where
  "priv_complete_call_assigments self with_keywords with_values =
     (case (case call_signatures (script self) of
              Inl e \<Rightarrow> Inl e
            | Inr sigs \<Rightarrow> py_index sigs 0) of
        Inl e \<Rightarrow> if e = IndexError then Inr [] else Inl e
      | Inr call_definition \<Rightarrow>
          (case get_function_parameters (Some call_definition) with_keywords of
             Inl e \<Rightarrow> Inl e
           | Inr parameters \<Rightarrow> Inr (call_assigments parameters with_values)))"

definition get_goto :: "jedi_facade \<Rightarrow> py_exception + py_value" where
  "get_goto self = map_sum id Locations (priv_goto self)"

definition get_usages :: "jedi_facade \<Rightarrow> py_exception + py_value" where
  "get_usages self = map_sum id Locations (priv_usages self)"

definition get_funcargs :: "jedi_facade \<Rightarrow> py_exception + py_value" where
  "get_funcargs self =
     (let complete_all = (auto_complete_function_params self = ''all'')
      in case priv_complete_call_assigments self complete_all complete_all of
           Inl e \<Rightarrow> Inl e
         | Inr call_parameters \<Rightarrow> Inr (PyStr (py_join '', '' (map snd call_parameters))))"

text \<open>\<open>JediFacade.get_autocomplete\<close>: \<open>chain\<close> runs the generator of the call
  arguments to its end before it starts the one of the completions.\<close>

definition get_autocomplete :: "jedi_facade \<Rightarrow> py_exception + py_value" where
  "get_autocomplete self =
     (case priv_complete_call_assigments self True False of
        Inl e \<Rightarrow> Inl e
      | Inr args \<Rightarrow>
          (case priv_completion self of
             Inl e \<Rightarrow> Inl e
           | Inr completion \<Rightarrow>
               Inr (Completions
                     (args @ filter (\<lambda>c. \<not> endswith (fst c) (tab # ''param'')) completion))))"

definition get_docstring :: "jedi_facade \<Rightarrow> py_exception + py_value" where
  "get_docstring self = priv_docstring self False"

definition get_signature :: "jedi_facade \<Rightarrow> py_exception + py_value" where
  "get_signature self = priv_docstring self True"

text \<open>\<open>getattr(self, attr)\<close> for an attribute whose name begins with \<open>get_\<close>: the six
  methods of the class with such a name, \<open>AttributeError\<close> for any other name.\<close>

definition getattr :: "string \<Rightarrow> py_exception + (jedi_facade \<Rightarrow> py_exception + py_value)" where
  "getattr attr =
     (if attr = ''get_goto'' then Inr get_goto
      else if attr = ''get_usages'' then Inr get_usages
      else if attr = ''get_funcargs'' then Inr get_funcargs
      else if attr = ''get_autocomplete'' then Inr get_autocomplete
      else if attr = ''get_docstring'' then Inr get_docstring
      else if attr = ''get_signature'' then Inr get_signature
      else Inl AttributeError)"

text \<open>\<open>JediFacade.get\<close>. The result is what the call does for its caller (\<open>Inl\<close>: it
  raises; \<open>Inr\<close>: it returns) together with the messages given to
  \<open>logger.exception\<close>. Every value of \<open>py_exception\<close> is an instance of
  \<open>Exception\<close>, so the \<open>except\<close> clause takes each of them; after the logging
  the call ends without a \<open>return\<close>, which is \<open>None\<close>.\<close>

definition get :: "jedi_facade \<Rightarrow> string \<Rightarrow> (py_exception + py_value) \<times> string list" where
  "get self action =
     (case (case getattr (''get_'' @ action) of
              Inl e \<Rightarrow> Inl e
            | Inr handler \<Rightarrow> handler self) of
        Inr v \<Rightarrow> (Inr v, [])
      | Inl e \<Rightarrow> (Inr PyNone, [''`JediFacade.get_'' @ action @ ''` failed'']))"

subsection \<open>The example of the specification\<close>

text \<open>The object Jedi gives for a parameter named \<open>n\<close> that is written \<open>code\<close> in
  the \<open>def\<close>: its description is the word \<open>param\<close> followed by that code.\<close>

definition parameter :: "string \<Rightarrow> string \<Rightarrow> base_definition" where
  "parameter n code =
     \<lparr>name = n, type = ''param'', description = ''param '' @ code, module_path = [],
      line = 1, column = 0, in_builtin_module = False, docstring = []\<rparr>"

text \<open>The call signature \<open>(self, a, b=5, *args)\<close>\<close>

definition example_signature :: call_signature where
  "example_signature =
     \<lparr>params = [parameter ''self'' ''self'', parameter ''a'' ''a'',
                parameter ''b'' ''b=5'', parameter ''args'' ''*args'']\<rparr>"

text \<open>A definition or usage object: name, type, file, line, column and the answer of
  \<open>in_builtin_module()\<close>.\<close>

definition name_at :: "string \<Rightarrow> string \<Rightarrow> string \<Rightarrow> int \<Rightarrow> int \<Rightarrow> bool \<Rightarrow> base_definition" where
  "name_at n t path l c builtin =
     \<lparr>name = n, type = t, description = t @ '' '' @ n, module_path = path,
      line = l, column = c, in_builtin_module = builtin, docstring = []\<rparr>"

text \<open>A session with the cursor on a name that \<open>/app/main.py\<close> imports: the
  assignment found is the import itself, the definitions are a function of
  \<open>/app/util.py\<close> and one of a built-in module.\<close>

definition import_facade :: jedi_facade where
  "import_facade =
     \<lparr>script =
        \<lparr>completions = Inr [],
         goto_assignments = Inr [name_at ''helper'' ''import'' ''/app/main.py'' 1 17 False],
         goto_definitions = Inr [name_at ''helper'' ''function'' ''/app/util.py'' 10 4 False,
                                 name_at ''helper'' ''function'' ''builtins'' 0 0 True],
         usages = Inr [name_at ''helper'' ''import'' ''/app/main.py'' 1 17 False,
                       name_at ''helper'' ''function'' ''builtins'' 0 0 True,
                       name_at ''helper'' ''statement'' ''/app/main.py'' 7 0 False],
         call_signatures = Inr []\<rparr>,
      auto_complete_function_params = ''all''\<rparr>"

text \<open>A session where no assignment is found and one definition is.\<close>

definition no_assignment_facade :: jedi_facade where
  "no_assignment_facade =
     \<lparr>script =
        \<lparr>completions = Inr [],
         goto_assignments = Inr [],
         goto_definitions = Inr [name_at ''helper'' ''function'' ''/app/util.py'' 10 4 False],
         usages = Inr [],
         call_signatures = Inr []\<rparr>,
      auto_complete_function_params = ''all''\<rparr>"

text \<open>A session with the cursor inside the call of a function with the example
  signature; the engine completes a parameter and a function, and fails to find
  usages.\<close>

definition call_facade :: jedi_facade where
  "call_facade =
     \<lparr>script =
        \<lparr>completions = Inr [name_at ''a'' ''param'' ''/app/main.py'' 3 10 False,
                            name_at ''abs'' ''function'' ''builtins'' 0 0 True],
         goto_assignments = Inr [],
         goto_definitions = Inr [],
         usages = Inl (OtherError ''engine failure''),
         call_signatures = Inr [example_signature]\<rparr>,
      auto_complete_function_params = ''all''\<rparr>"

section \<open>Properties\<close>

subsection \<open>The string operations\<close>

lemma endswith_suffix: "endswith s p \<longleftrightarrow> suffix p s"
proof
  assume "endswith s p"
  then have "s = take (length s - length p) s @ p"
    by (metis append_take_drop_id endswith_def)
  then show "suffix p s" by (metis suffixI)
next
  assume "suffix p s"
  then obtain zs where "s = zs @ p" by (auto simp: suffix_def)
  then show "endswith s p" by (simp add: endswith_def)
qed

text \<open>When the separator occurs, \<open>rsplit1\<close> cuts at its last occurrence.\<close>

lemma rsplit1_parts:
  assumes "sep \<in> set s"
  shows "\<exists>a b. rsplit1 sep s = [a, b] \<and> s = a @ sep # b \<and> sep \<notin> set b"
proof -
  let ?r = "rev s"
  let ?b = "takeWhile (\<lambda>c. c \<noteq> sep) ?r"
  let ?d = "dropWhile (\<lambda>c. c \<noteq> sep) ?r"
  from assms have "sep \<in> set ?r" by simp
  then have d: "?d \<noteq> [] \<and> hd ?d = sep"
    by (metis (mono_tags, lifting) dropWhile_eq_Nil_conv hd_dropWhile)
  then have "?d = sep # tl ?d" by (metis list.collapse)
  then have "?r = ?b @ sep # tl ?d" by (metis takeWhile_dropWhile_id)
  then have "rev ?r = rev (tl ?d) @ sep # rev ?b"
    by (metis rev.simps(2) rev_append append.assoc append_Cons append_Nil)
  then have "s = rev (tl ?d) @ sep # rev ?b" by simp
  moreover have "sep \<notin> set (rev ?b)" by (auto dest: set_takeWhileD)
  moreover have "rsplit1 sep s = [rev (tl ?d), rev ?b]"
    using assms by (simp add: rsplit1_def)
  ultimately show ?thesis by blast
qed

lemma rsplit1_index1:
  "sep \<in> set s \<Longrightarrow> \<exists>t. py_index (rsplit1 sep s) 1 = Inr t"
  using rsplit1_parts [of sep s] by (auto simp: py_index_def)

text \<open>The cut is after the last occurrence of the separator, whatever comes before.\<close>

lemma rsplit1_last:
  assumes "sep \<notin> set b"
  shows "rsplit1 sep (a @ sep # b) = [a, b]"
proof -
  have r: "rev (a @ sep # b) = rev b @ sep # rev a" by simp
  have ne: "\<And>x. x \<in> set (rev b) \<Longrightarrow> x \<noteq> sep" using assms by auto
  have t: "takeWhile (\<lambda>c. c \<noteq> sep) (rev b @ sep # rev a) = rev b"
    using takeWhile_append2 [of "rev b" "\<lambda>c. c \<noteq> sep" "sep # rev a"] ne by simp
  have d: "dropWhile (\<lambda>c. c \<noteq> sep) (rev b @ sep # rev a) = sep # rev a"
    using dropWhile_append2 [of "rev b" "\<lambda>c. c \<noteq> sep" "sep # rev a"] ne by simp
  show ?thesis unfolding rsplit1_def r t d by simp
qed

subsection \<open>format\_completion\<close>

text \<open>
  C9: for every completion item, \<open>format_completion\<close> returns the pair whose first
  component is the item's name, a tab character and the item's type, in that order, and
  whose second component is the item's name, whatever characters the name holds. The
  function is total: it has no error result.
\<close>

theorem format_completion_display_insert:
  "format_completion complete = (name complete @ [CHR 0x09] @ type complete, name complete)"
  by (simp add: format_completion_def tab_def)

subsection \<open>get\_function\_parameters\<close>

text \<open>The indexing of the \<open>rsplit\<close> result is guarded by \<open>is_keyword\<close>, so the
  function returns a list for every signature and either flag.\<close>

lemma for_param_returns: "\<exists>ps. for_param with_keywords xs acc = Inr ps"
proof (induction xs arbitrary: acc)
  case Nil
  show ?case by simp
next
  case (Cons param rest)
  let ?d = "py_replace ''param '' [] (description param)"
  show ?case
  proof (cases "CHR ''='' \<in> set ?d \<and> with_keywords")
    case True
    then obtain t where "py_index (rsplit1 (CHR ''='') ?d) 1 = Inr t"
      using rsplit1_index1 by blast
    then show ?thesis using True Cons.IH by (simp add: Let_def)
  next
    case False
    then show ?thesis using Cons.IH by (auto simp: Let_def)
  qed
qed

text \<open>Without keywords the loop keeps exactly the parameters that pass every test,
  each with no value.\<close>

lemma for_param_no_keywords:
  "for_param False ps acc =
     Inr (acc @ map (\<lambda>p. (name p, None))
            (filter (\<lambda>p. CHR ''*'' \<notin> set (description p) \<and> name p \<noteq> []
                        \<and> name p \<noteq> ''self'' \<and> name p \<noteq> ''...''
                        \<and> CHR ''='' \<notin> set (py_replace ''param '' [] (description p))) ps))"
  by (induction ps arbitrary: acc) (simp_all add: Let_def)

text \<open>With keywords, a parameter that passes the tests and has a \<open>=\<close> in its
  description gets as its value the text after the last \<open>=\<close>, without the white
  space in front.\<close>

lemma for_param_keyword_value:
  assumes "CHR ''*'' \<notin> set (description p)"
    and "name p \<noteq> []" and "name p \<noteq> ''self''" and "name p \<noteq> ''...''"
    and "py_replace ''param '' [] (description p) = a @ CHR ''='' # b"
    and "CHR ''='' \<notin> set b"
  shows "for_param True (p # rest) acc = for_param True rest (acc @ [(name p, Some (lstrip b))])"
  using assms by (simp add: Let_def rsplit1_last py_index_def)

text \<open>
  C2, as the specification states it: for the signature \<open>(self, a, b=5, *args)\<close>
  without keywords the result would be \<open>[("a", None), ("b", None)]\<close>. The function
  does not return that list.
\<close>

theorem no_keywords_example_counterexample:
  "get_function_parameters (Some example_signature) False
     \<noteq> Inr [(''a'', None), (''b'', None)]"
  by code_simp

text \<open>
  C2, amended: for the signature \<open>(self, a, b=5, *args)\<close> without keywords the result
  is \<open>[("a", None)]\<close>: the parameter \<open>b\<close>, which has a default, is skipped by the
  branch \<open>elif is_keyword and not with_keywords: continue\<close>.
\<close>

theorem no_keywords_example:
  "get_function_parameters (Some example_signature) False = Inr [(''a'', None)]"
  by code_simp

text \<open>
  C3: with keywords, the signature \<open>(self, a, b=5, *args)\<close> gives
  \<open>[("a", None), ("b", "5")]\<close>. The value of a parameter with a default is to be
  that default (the docstring: the tuple holds the parameter name and the default
  value), which is the text after the first \<open>=\<close>. For the parameter of
  \<open>def f(opts=dict(a=1))\<close> the default is \<open>dict(a=1)\<close>; the function cuts at the
  last \<open>=\<close> and returns \<open>1)\<close>.
\<close>

theorem with_keywords_value_after_last_equals:
  "get_function_parameters (Some example_signature) True
     = Inr [(''a'', None), (''b'', Some ''5'')]
   \<and> get_function_parameters (Some \<lparr>params = [parameter ''opts'' ''opts=dict(a=1)'']\<rparr>) True
     = Inr [(''opts'', Some ''1)'')]"
  by code_simp

text \<open>
  C8: for every call signature (or none), \<open>get_function_parameters\<close> without keywords
  returns a list in which every pair has no value; the list is made, in order, from
  parameters of the signature, and none of these has a \<open>*\<close> in its description.
\<close>

theorem no_keywords_no_value_no_star:
  "\<exists>kept ps.
     get_function_parameters call_signature False = Inr ps
     \<and> (\<forall>e\<in>set ps. snd e = None)
     \<and> ps = map (\<lambda>p. (name p, None)) kept
     \<and> subseq kept (case call_signature of None \<Rightarrow> [] | Some cs \<Rightarrow> params cs)
     \<and> (\<forall>p\<in>set kept. CHR ''*'' \<notin> set (description p))"
proof (cases call_signature)
  case None
  then show ?thesis by (simp add: get_function_parameters_def)
next
  case (Some cs)
  let ?keep = "\<lambda>p. CHR ''*'' \<notin> set (description p) \<and> name p \<noteq> []
                 \<and> name p \<noteq> ''self'' \<and> name p \<noteq> ''...''
                 \<and> CHR ''='' \<notin> set (py_replace ''param '' [] (description p))"
  let ?kept = "filter ?keep (params cs)"
  have a: "get_function_parameters call_signature False = Inr (map (\<lambda>p. (name p, None)) ?kept)"
    using Some for_param_no_keywords [of "params cs" "[]"]
    by (simp add: get_function_parameters_def)
  have b: "subseq ?kept (case call_signature of None \<Rightarrow> [] | Some cs \<Rightarrow> params cs)"
    using Some by simp
  have c: "\<forall>p\<in>set ?kept. CHR ''*'' \<notin> set (description p)" by simp
  have d: "\<forall>e\<in>set (map (\<lambda>p. (name p, None :: string option)) ?kept). snd e = None"
    by simp
  from a b c d show ?thesis by blast
qed


theorem no_keywords_no_value_no_star_witness:
  "\<exists>kept. kept \<noteq> []
     \<and> get_function_parameters (Some example_signature) False
         = Inr (map (\<lambda>p. (name p, None)) kept)
     \<and> map (\<lambda>p. (name p, None :: string option)) kept = [(''a'', None)]
     \<and> subseq kept (params example_signature)
     \<and> (\<forall>p\<in>set kept. CHR ''*'' \<notin> set (description p))"
proof -
  have ev: "get_function_parameters (Some example_signature) False = Inr [(''a'', None)]"
    by code_simp
  obtain kept ps where k:
    "get_function_parameters (Some example_signature) False = Inr ps"
    "ps = map (\<lambda>p. (name p, None)) kept"
    "subseq kept (case Some example_signature of None \<Rightarrow> [] | Some cs \<Rightarrow> params cs)"
    "\<forall>p\<in>set kept. CHR ''*'' \<notin> set (description p)"
    using no_keywords_no_value_no_star [of "Some example_signature"] by blast
  from k(1) ev have ps: "ps = [(''a'', None)]" by simp
  with k(2) have m: "map (\<lambda>p. (name p, None :: string option)) kept = [(''a'', None)]"
    by simp
  then have ne: "kept \<noteq> []" by auto
  from k(3) have sub: "subseq kept (params example_signature)" by simp
  from k(1) k(2) have g: "get_function_parameters (Some example_signature) False
         = Inr (map (\<lambda>p. (name p, None)) kept)" by simp
  show ?thesis
    by (rule exI [of _ kept]) (intro conjI ne g m sub k(4))
qed

subsection \<open>goto and usages\<close>

text \<open>With only imports among the assignments (or no assignment at all) the
  handler asks for the definitions.\<close>

lemma priv_goto_all_imports:
  "goto_assignments (script self) = Inr definitions \<Longrightarrow>
   list_all (\<lambda>d. type d = ''import'') definitions \<Longrightarrow>
   priv_goto self =
     (case goto_definitions (script self) of
        Inl e \<Rightarrow> Inl e
      | Inr ds \<Rightarrow> Inr (locations ds))"
  by (simp add: priv_goto_def)

lemma priv_goto_source:
  assumes "priv_goto self = Inr rs"
  shows "\<exists>ds. (goto_assignments (script self) = Inr ds \<or> goto_definitions (script self) = Inr ds)
           \<and> rs = locations ds"
  using assms
  by (auto simp: priv_goto_def split: sum.splits if_splits)

lemma locations_columns:
  "\<forall>i\<in>set ds. 0 \<le> column i \<Longrightarrow> \<forall>(p, l, c)\<in>set (locations ds). 1 \<le> c"
  by (auto simp: locations_def)

text \<open>
  C4: in the goto handler, when every definition that \<open>goto_assignments\<close> returns
  has the type \<open>import\<close>, the result is computed from the answer of
  \<open>goto_definitions\<close>: the locations of its definitions outside built-in modules
  (or the exception of that second call). The assignments found first do not
  contribute.
\<close>

theorem goto_import_fallback:
  assumes "goto_assignments (script self) = Inr definitions"
    and "\<forall>d\<in>set definitions. type d = ''import''"
  shows "priv_goto self =
     (case goto_definitions (script self) of
        Inl e \<Rightarrow> Inl e
      | Inr ds \<Rightarrow>
          Inr (map (\<lambda>i. (module_path i, line i, column i + 1))
                 (filter (\<lambda>i. \<not> in_builtin_module i) ds)))"
proof -
  from assms(2) have "list_all (\<lambda>d. type d = ''import'') definitions"
    by (simp add: list_all_iff)
  with assms(1) show ?thesis
    by (simp add: priv_goto_all_imports locations_def split: sum.split)
qed

theorem goto_import_fallback_witness:
  "goto_assignments (script import_facade)
     = Inr [name_at ''helper'' ''import'' ''/app/main.py'' 1 17 False]
   \<and> type (name_at ''helper'' ''import'' ''/app/main.py'' 1 17 False) = ''import''
   \<and> priv_goto import_facade = Inr [(''/app/util.py'', 10, 5)]"
proof -
  have a: "goto_assignments (script import_facade)
     = Inr [name_at ''helper'' ''import'' ''/app/main.py'' 1 17 False]"
    by (simp add: import_facade_def)
  have t: "type (name_at ''helper'' ''import'' ''/app/main.py'' 1 17 False) = ''import''"
    by (simp add: name_at_def)
  then have b: "\<forall>d\<in>set [name_at ''helper'' ''import'' ''/app/main.py'' 1 17 False].
                  type d = ''import''"
    by simp
  have "priv_goto import_facade = Inr [(''/app/util.py'', 10, 5)]"
    using goto_import_fallback [OF a b] by (simp add: import_facade_def name_at_def)
  with a t show ?thesis by simp
qed

text \<open>
  C10: when \<open>goto_assignments\<close> returns the empty list, the test that all
  definitions are imports holds, and the goto handler returns what it computes from
  \<open>goto_definitions\<close>; there is a session without any assignment for which goto
  returns a location.
\<close>

theorem goto_empty_assignments_fallback:
  "(goto_assignments (script self) = Inr [] \<longrightarrow>
      priv_goto self =
        (case goto_definitions (script self) of
           Inl e \<Rightarrow> Inl e
         | Inr ds \<Rightarrow>
             Inr (map (\<lambda>i. (module_path i, line i, column i + 1))
                    (filter (\<lambda>i. \<not> in_builtin_module i) ds))))
   \<and> (\<exists>facade loc. goto_assignments (script facade) = Inr []
                   \<and> priv_goto facade = Inr [loc])"
proof -
  have "goto_assignments (script no_assignment_facade) = Inr []"
    by (simp add: no_assignment_facade_def)
  moreover have "priv_goto no_assignment_facade = Inr [(''/app/util.py'', 10, 5)]"
    by (simp add: priv_goto_def no_assignment_facade_def locations_def name_at_def)
  ultimately have "\<exists>facade loc. goto_assignments (script facade) = Inr []
                   \<and> priv_goto facade = Inr [loc]" by blast
  then show ?thesis
    by (simp add: priv_goto_all_imports locations_def split: sum.split)
qed

theorem goto_empty_assignments_fallback_witness:
  "goto_assignments (script no_assignment_facade) = Inr []
   \<and> priv_goto no_assignment_facade = Inr [(''/app/util.py'', 10, 5)]"
proof -
  have a: "goto_assignments (script no_assignment_facade) = Inr []"
    by (simp add: no_assignment_facade_def)
  from goto_empty_assignments_fallback [of no_assignment_facade] a
  have "priv_goto no_assignment_facade =
        (case goto_definitions (script no_assignment_facade) of
           Inl e \<Rightarrow> Inl e
         | Inr ds \<Rightarrow>
             Inr (map (\<lambda>i. (module_path i, line i, column i + 1))
                    (filter (\<lambda>i. \<not> in_builtin_module i) ds)))" by blast
  then have "priv_goto no_assignment_facade = Inr [(''/app/util.py'', 10, 5)]"
    by (simp add: no_assignment_facade_def name_at_def)
  with a show ?thesis by simp
qed

text \<open>
  C5: a list returned by the goto handler is made from one of the two engine
  answers (assignments or definitions), and a list returned by the usages handler from
  the engine's usages: it holds, in order, the triple (module path, line, column + 1)
  of exactly the objects that are not in a built-in module. When the engine's columns
  count from 0, the columns returned count from 1.
\<close>

theorem goto_usages_locations:
  "(priv_goto self = Inr rs \<longrightarrow>
      (\<exists>ds. (goto_assignments (script self) = Inr ds \<or> goto_definitions (script self) = Inr ds)
         \<and> rs = map (\<lambda>i. (module_path i, line i, column i + 1))
                  (filter (\<lambda>i. \<not> in_builtin_module i) ds)
         \<and> ((\<forall>i\<in>set ds. 0 \<le> column i) \<longrightarrow> (\<forall>(p, l, c)\<in>set rs. 1 \<le> c))))
   \<and> (priv_usages self = Inr rs \<longrightarrow>
      (\<exists>ds. usages (script self) = Inr ds
         \<and> rs = map (\<lambda>i. (module_path i, line i, column i + 1))
                  (filter (\<lambda>i. \<not> in_builtin_module i) ds)
         \<and> ((\<forall>i\<in>set ds. 0 \<le> column i) \<longrightarrow> (\<forall>(p, l, c)\<in>set rs. 1 \<le> c))))"
proof (intro conjI impI)
  assume "priv_goto self = Inr rs"
  then obtain ds where ds:
    "goto_assignments (script self) = Inr ds \<or> goto_definitions (script self) = Inr ds"
    "rs = locations ds"
    using priv_goto_source by blast
  from ds(2) have "(\<forall>i\<in>set ds. 0 \<le> column i) \<longrightarrow> (\<forall>(p, l, c)\<in>set rs. 1 \<le> c)"
    using locations_columns [of ds] by blast
  with ds show "\<exists>ds. (goto_assignments (script self) = Inr ds
                        \<or> goto_definitions (script self) = Inr ds)
         \<and> rs = map (\<lambda>i. (module_path i, line i, column i + 1))
                  (filter (\<lambda>i. \<not> in_builtin_module i) ds)
         \<and> ((\<forall>i\<in>set ds. 0 \<le> column i) \<longrightarrow> (\<forall>(p, l, c)\<in>set rs. 1 \<le> c))"
    unfolding locations_def by blast
next
  assume "priv_usages self = Inr rs"
  then obtain ds where ds: "usages (script self) = Inr ds" "rs = locations ds"
    by (auto simp: priv_usages_def split: sum.splits)
  from ds(2) have "(\<forall>i\<in>set ds. 0 \<le> column i) \<longrightarrow> (\<forall>(p, l, c)\<in>set rs. 1 \<le> c)"
    using locations_columns [of ds] by blast
  with ds show "\<exists>ds. usages (script self) = Inr ds
         \<and> rs = map (\<lambda>i. (module_path i, line i, column i + 1))
                  (filter (\<lambda>i. \<not> in_builtin_module i) ds)
         \<and> ((\<forall>i\<in>set ds. 0 \<le> column i) \<longrightarrow> (\<forall>(p, l, c)\<in>set rs. 1 \<le> c))"
    unfolding locations_def by blast
qed


theorem goto_usages_locations_witness:
  "priv_goto import_facade = Inr [(''/app/util.py'', 10, 5)]
   \<and> (\<exists>ds. (goto_assignments (script import_facade) = Inr ds
              \<or> goto_definitions (script import_facade) = Inr ds)
         \<and> [(''/app/util.py'', 10, 5)]
             = map (\<lambda>i. (module_path i, line i, column i + 1))
                 (filter (\<lambda>i. \<not> in_builtin_module i) ds)
         \<and> ((\<forall>i\<in>set ds. 0 \<le> column i)
              \<longrightarrow> (\<forall>(p, l, c)\<in>set [(''/app/util.py'', 10 :: int, 5 :: int)]. 1 \<le> c)))
   \<and> priv_usages import_facade = Inr [(''/app/main.py'', 1, 18), (''/app/main.py'', 7, 1)]
   \<and> (\<exists>ds. usages (script import_facade) = Inr ds
         \<and> [(''/app/main.py'', 1, 18), (''/app/main.py'', 7, 1)]
             = map (\<lambda>i. (module_path i, line i, column i + 1))
                 (filter (\<lambda>i. \<not> in_builtin_module i) ds)
         \<and> ((\<forall>i\<in>set ds. 0 \<le> column i)
              \<longrightarrow> (\<forall>(p, l, c)\<in>set [(''/app/main.py'', 1 :: int, 18 :: int), (''/app/main.py'', 7, 1)].
                     1 \<le> c)))"
proof -
  have g: "priv_goto import_facade = Inr [(''/app/util.py'', 10, 5)]"
    by (simp add: priv_goto_def import_facade_def locations_def name_at_def)
  have u: "priv_usages import_facade
             = Inr [(''/app/main.py'', 1, 18), (''/app/main.py'', 7, 1)]"
    by (simp add: priv_usages_def import_facade_def locations_def name_at_def)
  note at_goto = goto_usages_locations [of import_facade "[(''/app/util.py'', 10, 5)]"]
  note at_usages = goto_usages_locations
      [of import_facade "[(''/app/main.py'', 1, 18), (''/app/main.py'', 7, 1)]"]
  show ?thesis
    by (intro conjI g u mp [OF conjunct1 [OF at_goto] g] mp [OF conjunct2 [OF at_usages] u])
qed

subsection \<open>The snippets of the call arguments\<close>

text \<open>\<open>decimal\<close> writes the digits of its argument: reading them back gives
  the number.\<close>

lemma digit_value: "d < 10 \<Longrightarrow> of_char (digit d) = 48 + d"
  by (simp add: digit_def)

lemma decimal_value:
  "foldl (\<lambda>a c. 10 * a + (of_char c - 48)) 0 (decimal n) = n"
proof (induction n rule: decimal.induct)
  case (1 n)
  show ?case
  proof (cases "n < 10")
    case True
    then show ?thesis by (simp add: decimal.simps [of n] digit_value)
  next
    case False
    then have "foldl (\<lambda>a c. 10 * a + (of_char c - 48)) 0 (decimal (n div 10)) = n div 10"
      using "1.IH" by simp
    with False show ?thesis by (simp add: decimal.simps [of n] digit_value)
  qed
qed

lemma call_assigments_length:
  "length (call_assigments parameters with_values) = length parameters"
  by (simp add: call_assigments_def)

lemma call_assigments_nth:
  assumes "i < length parameters"
  shows "call_assigments parameters with_values ! i =
     (fst (parameters ! i) @ CHR 0x09 # ''param'',
      if snd (parameters ! i) \<noteq> None \<and> with_values
      then fst (parameters ! i) @ ''=${'' @ decimal (i + 1) @ '':''
             @ the (snd (parameters ! i)) @ ''}''
      else ''${'' @ decimal (i + 1) @ '':'' @ fst (parameters ! i) @ ''}'')"
proof -
  obtain n v where nv: "parameters ! i = (n, v)" by (cases "parameters ! i")
  from assms have "enumerate 0 parameters ! i = (i, parameters ! i)"
    by (simp add: nth_enumerate_eq)
  with assms nv show ?thesis
    by (cases v) (simp_all add: call_assigments_def tab_def)
qed

lemma call_assigments_example:
  "call_assigments [(''a'', None), (''b'', Some ''5'')] True =
     [(''a'' @ CHR 0x09 # ''param'', ''${1:a}''), (''b'' @ CHR 0x09 # ''param'', ''b=${2:5}'')]"
  by code_simp

lemma priv_complete_call_assigments_first:
  "call_signatures (script self) = Inr (call_definition # others) \<Longrightarrow>
   get_function_parameters (Some call_definition) with_keywords = Inr parameters \<Longrightarrow>
   priv_complete_call_assigments self with_keywords with_values
     = Inr (call_assigments parameters with_values)"
  by (simp add: priv_complete_call_assigments_def py_index_def)

text \<open>
  C7: the snippet builder gives one entry for each parameter, in order. The entry of
  the parameter at position \<open>i\<close> (from 0) has the display label name, tab,
  \<open>param\<close>, and the insert text \<open>name=${i+1:value}\<close> when the parameter has a
  default value and \<open>with_values\<close> is true, \<open>${i+1:name}\<close> otherwise. For
  \<open>[("a", None), ("b", "5")]\<close> with values the insert texts are \<open>${1:a}\<close> and
  \<open>b=${2:5}\<close>. The generator applies this to the parameters of the first call
  signature.
\<close>

theorem call_assigments_entries:
  "length (call_assigments parameters with_values) = length parameters
   \<and> (\<forall>i<length parameters.
        call_assigments parameters with_values ! i =
          (fst (parameters ! i) @ CHR 0x09 # ''param'',
           if snd (parameters ! i) \<noteq> None \<and> with_values
           then fst (parameters ! i) @ ''=${'' @ decimal (i + 1) @ '':''
                  @ the (snd (parameters ! i)) @ ''}''
           else ''${'' @ decimal (i + 1) @ '':'' @ fst (parameters ! i) @ ''}''))
   \<and> call_assigments [(''a'', None), (''b'', Some ''5'')] True =
        [(''a'' @ CHR 0x09 # ''param'', ''${1:a}''),
         (''b'' @ CHR 0x09 # ''param'', ''b=${2:5}'')]
   \<and> (call_signatures (script self) = Inr (call_definition # others)
        \<and> get_function_parameters (Some call_definition) with_keywords = Inr parameters
      \<longrightarrow> priv_complete_call_assigments self with_keywords with_values
            = Inr (call_assigments parameters with_values))"
proof (intro conjI allI impI)
  show "length (call_assigments parameters with_values) = length parameters"
    by (rule call_assigments_length)
next
  fix i
  assume "i < length parameters"
  then show "call_assigments parameters with_values ! i =
          (fst (parameters ! i) @ CHR 0x09 # ''param'',
           if snd (parameters ! i) \<noteq> None \<and> with_values
           then fst (parameters ! i) @ ''=${'' @ decimal (i + 1) @ '':''
                  @ the (snd (parameters ! i)) @ ''}''
           else ''${'' @ decimal (i + 1) @ '':'' @ fst (parameters ! i) @ ''}'')"
    by (rule call_assigments_nth)
next
  show "call_assigments [(''a'', None), (''b'', Some ''5'')] True =
        [(''a'' @ CHR 0x09 # ''param'', ''${1:a}''),
         (''b'' @ CHR 0x09 # ''param'', ''b=${2:5}'')]"
    by (rule call_assigments_example)
next
  assume "call_signatures (script self) = Inr (call_definition # others)
        \<and> get_function_parameters (Some call_definition) with_keywords = Inr parameters"
  then show "priv_complete_call_assigments self with_keywords with_values
            = Inr (call_assigments parameters with_values)"
    by (simp add: priv_complete_call_assigments_first)
qed

theorem call_assigments_entries_witness:
  "(1::nat) < length [(''a'', None :: string option), (''b'', Some ''5'')]
   \<and> call_assigments [(''a'', None), (''b'', Some ''5'')] True ! 1
       = (''b'' @ CHR 0x09 # ''param'', ''b=${2:5}'')
   \<and> call_signatures (script call_facade) = Inr [example_signature]
   \<and> get_function_parameters (Some example_signature) True
       = Inr [(''a'', None), (''b'', Some ''5'')]
   \<and> priv_complete_call_assigments call_facade True True
       = Inr [(''a'' @ CHR 0x09 # ''param'', ''${1:a}''),
              (''b'' @ CHR 0x09 # ''param'', ''b=${2:5}'')]"
proof -
  note at_example =
    call_assigments_entries
      [of "[(''a'', None), (''b'', Some ''5'')]" True call_facade example_signature "[]" True]
  have len: "(1::nat) < length [(''a'', None :: string option), (''b'', Some ''5'')]"
    by simp
  have dec: "decimal (Suc (Suc 0)) = ''2''" by code_simp
  from at_example len
  have "call_assigments [(''a'', None), (''b'', Some ''5'')] True ! 1 =
          (fst ([(''a'', None), (''b'', Some ''5'')] ! 1) @ CHR 0x09 # ''param'',
           if snd ([(''a'', None), (''b'', Some ''5'')] ! 1) \<noteq> None \<and> True
           then fst ([(''a'', None), (''b'', Some ''5'')] ! 1) @ ''=${'' @ decimal (1 + 1) @ '':''
                  @ the (snd ([(''a'', None), (''b'', Some ''5'')] ! 1)) @ ''}''
           else ''${'' @ decimal (1 + 1) @ '':'' @ fst ([(''a'', None), (''b'', Some ''5'')] ! 1) @ ''}'')"
    by (elim conjE allE [of _ 1]) (erule mp)
  then have nth: "call_assigments [(''a'', None), (''b'', Some ''5'')] True ! 1
       = (''b'' @ CHR 0x09 # ''param'', ''b=${2:5}'')"
    by (simp add: dec)
  have sig: "call_signatures (script call_facade) = Inr [example_signature]"
    by (simp add: call_facade_def)
  have ps: "get_function_parameters (Some example_signature) True
       = Inr [(''a'', None), (''b'', Some ''5'')]"
    by code_simp
  from at_example sig ps
  have "priv_complete_call_assigments call_facade True True
          = Inr (call_assigments [(''a'', None), (''b'', Some ''5'')] True)"
    by (elim conjE) (erule mp, simp)
  moreover from at_example
  have "call_assigments [(''a'', None), (''b'', Some ''5'')] True =
        [(''a'' @ CHR 0x09 # ''param'', ''${1:a}''),
         (''b'' @ CHR 0x09 # ''param'', ''b=${2:5}'')]"
    by (elim conjE)
  ultimately have run: "priv_complete_call_assigments call_facade True True
       = Inr [(''a'' @ CHR 0x09 # ''param'', ''${1:a}''),
              (''b'' @ CHR 0x09 # ''param'', ''b=${2:5}'')]"
    by simp
  show ?thesis by (intro conjI len nth sig ps run)
qed

subsection \<open>Autocompletion\<close>

lemma get_autocomplete_chain:
  "priv_complete_call_assigments self True False = Inr args \<Longrightarrow>
   completions (script self) = Inr cs \<Longrightarrow>
   get_autocomplete self =
     Inr (Completions
           (args @ filter (\<lambda>c. \<not> suffix (CHR 0x09 # ''param'') (fst c))
                     (map format_completion cs)))"
  by (simp add: get_autocomplete_def priv_completion_def endswith_suffix tab_def)

text \<open>
  C6: when the call arguments (computed with keywords and without values) and the
  engine's completions are both obtained, the autocomplete handler returns the entries
  of the call arguments followed by the formatted completions, in the engine's order,
  without those whose display label ends with tab, \<open>param\<close>. So no entry of that
  second part has such a label.
\<close>

theorem autocomplete_args_then_completions:
  assumes "priv_complete_call_assigments self True False = Inr args"
    and "completions (script self) = Inr cs"
  shows "\<exists>regular.
     get_autocomplete self = Inr (Completions (args @ regular))
     \<and> regular = filter (\<lambda>c. \<not> suffix (CHR 0x09 # ''param'') (fst c))
                    (map format_completion cs)
     \<and> subseq regular (map format_completion cs)
     \<and> (\<forall>c\<in>set regular. \<not> suffix (CHR 0x09 # ''param'') (fst c))"
proof -
  let ?regular = "filter (\<lambda>c. \<not> suffix (CHR 0x09 # ''param'') (fst c))
                    (map format_completion cs)"
  have "get_autocomplete self = Inr (Completions (args @ ?regular))"
    using assms by (rule get_autocomplete_chain)
  moreover have "subseq ?regular (map format_completion cs)" by simp
  moreover have "\<forall>c\<in>set ?regular. \<not> suffix (CHR 0x09 # ''param'') (fst c)" by simp
  ultimately show ?thesis by (intro exI [of _ ?regular] conjI refl)
qed

theorem autocomplete_args_then_completions_witness:
  "priv_complete_call_assigments call_facade True False
     = Inr [(''a'' @ CHR 0x09 # ''param'', ''${1:a}''), (''b'' @ CHR 0x09 # ''param'', ''${2:b}'')]
   \<and> completions (script call_facade)
     = Inr [name_at ''a'' ''param'' ''/app/main.py'' 3 10 False,
            name_at ''abs'' ''function'' ''builtins'' 0 0 True]
   \<and> get_autocomplete call_facade
     = Inr (Completions
             [(''a'' @ CHR 0x09 # ''param'', ''${1:a}''),
              (''b'' @ CHR 0x09 # ''param'', ''${2:b}''),
              (''abs'' @ CHR 0x09 # ''function'', ''abs'')])"
proof -
  have a: "priv_complete_call_assigments call_facade True False
     = Inr [(''a'' @ CHR 0x09 # ''param'', ''${1:a}''), (''b'' @ CHR 0x09 # ''param'', ''${2:b}'')]"
    by code_simp
  have c: "completions (script call_facade)
     = Inr [name_at ''a'' ''param'' ''/app/main.py'' 3 10 False,
            name_at ''abs'' ''function'' ''builtins'' 0 0 True]"
    by (simp add: call_facade_def)
  have f: "filter (\<lambda>c. \<not> suffix (CHR 0x09 # ''param'') (fst c))
             (map format_completion
                [name_at ''a'' ''param'' ''/app/main.py'' 3 10 False,
                 name_at ''abs'' ''function'' ''builtins'' 0 0 True])
           = [(''abs'' @ CHR 0x09 # ''function'', ''abs'')]"
    by (simp add: format_completion_def name_at_def tab_def suffix_Cons)
  obtain regular where r:
    "get_autocomplete call_facade
       = Inr (Completions ([(''a'' @ CHR 0x09 # ''param'', ''${1:a}''),
                            (''b'' @ CHR 0x09 # ''param'', ''${2:b}'')] @ regular))"
    "regular = filter (\<lambda>c. \<not> suffix (CHR 0x09 # ''param'') (fst c))
                 (map format_completion
                    [name_at ''a'' ''param'' ''/app/main.py'' 3 10 False,
                     name_at ''abs'' ''function'' ''builtins'' 0 0 True])"
    using autocomplete_args_then_completions [OF a c] by (elim exE conjE)
  from r f have "get_autocomplete call_facade
     = Inr (Completions
             [(''a'' @ CHR 0x09 # ''param'', ''${1:a}''),
              (''b'' @ CHR 0x09 # ''param'', ''${2:b}''),
              (''abs'' @ CHR 0x09 # ''function'', ''abs'')])"
    by simp
  with a c show ?thesis by (intro conjI)
qed

subsection \<open>The dispatcher\<close>

lemma getattr_unknown:
  "action \<notin> {''goto'', ''usages'', ''funcargs'', ''autocomplete'', ''docstring'', ''signature''}
   \<Longrightarrow> getattr (''get_'' @ action) = Inl AttributeError"
  by (simp add: getattr_def)

lemma get_cases:
  "get self action =
     (case getattr (''get_'' @ action) of
        Inl e \<Rightarrow> (Inr PyNone, [''`JediFacade.get_'' @ action @ ''` failed''])
      | Inr handler \<Rightarrow>
          (case handler self of
             Inl e \<Rightarrow> (Inr PyNone, [''`JediFacade.get_'' @ action @ ''` failed''])
           | Inr v \<Rightarrow> (Inr v, [])))"
  by (simp add: get_def split: sum.splits)

text \<open>
  C1: for every facade and every action name, \<open>get\<close> returns: it never raises.
  For an action without a handler the lookup raises \<open>AttributeError\<close>, and when the
  handler found raises an exception, in both cases \<open>get\<close> returns \<open>None\<close> and
  logs one message that holds the name of the action. When the handler returns a value,
  \<open>get\<close> returns that value and logs nothing.
\<close>

theorem get_never_raises:
  "(\<exists>v. fst (get self action) = Inr v)
   \<and> (action \<notin> {''goto'', ''usages'', ''funcargs'', ''autocomplete'', ''docstring'',
                   ''signature''}
        \<longrightarrow> getattr (''get_'' @ action) = Inl AttributeError
           \<and> get self action = (Inr PyNone, [''`JediFacade.get_'' @ action @ ''` failed'']))
   \<and> (\<forall>handler e. getattr (''get_'' @ action) = Inr handler \<and> handler self = Inl e
        \<longrightarrow> get self action = (Inr PyNone, [''`JediFacade.get_'' @ action @ ''` failed'']))
   \<and> (\<forall>handler v. getattr (''get_'' @ action) = Inr handler \<and> handler self = Inr v
        \<longrightarrow> get self action = (Inr v, []))"
proof (intro conjI allI impI)
  show "\<exists>v. fst (get self action) = Inr v"
    by (simp add: get_cases split: sum.splits)
next
  assume u: "action \<notin> {''goto'', ''usages'', ''funcargs'', ''autocomplete'', ''docstring'',
                   ''signature''}"
  then show "getattr (''get_'' @ action) = Inl AttributeError" by (rule getattr_unknown)
  then show "get self action = (Inr PyNone, [''`JediFacade.get_'' @ action @ ''` failed''])"
    by (simp add: get_cases)
next
  fix handler e
  assume "getattr (''get_'' @ action) = Inr handler \<and> handler self = Inl e"
  then show "get self action = (Inr PyNone, [''`JediFacade.get_'' @ action @ ''` failed''])"
    by (simp add: get_cases)
next
  fix handler v
  assume "getattr (''get_'' @ action) = Inr handler \<and> handler self = Inr v"
  then show "get self action = (Inr v, [])"
    by (simp add: get_cases)
qed

theorem get_never_raises_witness:
  "get call_facade ''rename'' = (Inr PyNone, [''`JediFacade.get_rename` failed''])
   \<and> getattr ''get_usages'' = Inr get_usages
   \<and> get_usages call_facade = Inl (OtherError ''engine failure'')
   \<and> get call_facade ''usages'' = (Inr PyNone, [''`JediFacade.get_usages` failed''])
   \<and> getattr ''get_funcargs'' = Inr get_funcargs
   \<and> get_funcargs call_facade = Inr (PyStr ''${1:a}, b=${2:5}'')
   \<and> get call_facade ''funcargs'' = (Inr (PyStr ''${1:a}, b=${2:5}''), [])"
proof -
  note unknown = get_never_raises [of call_facade "''rename''"]
  note failing = get_never_raises [of call_facade "''usages''"]
  note working = get_never_raises [of call_facade "''funcargs''"]
  have n: "''rename'' \<notin> {''goto'', ''usages'', ''funcargs'', ''autocomplete'', ''docstring'',
                   ''signature''}"
    by simp
  from unknown n
  have 1: "get call_facade ''rename'' = (Inr PyNone, [''`JediFacade.get_'' @ ''rename'' @ ''` failed''])"
    by (elim conjE) (drule (1) mp, erule conjunct2)
  have 2: "getattr ''get_usages'' = Inr get_usages" by (simp add: getattr_def)
  have 3: "get_usages call_facade = Inl (OtherError ''engine failure'')"
    by (simp add: get_usages_def priv_usages_def call_facade_def)
  from failing 2 3
  have 4: "get call_facade ''usages'' = (Inr PyNone, [''`JediFacade.get_'' @ ''usages'' @ ''` failed''])"
    by (elim conjE allE [of _ get_usages] allE [of _ "OtherError ''engine failure''"]) simp
  have 5: "getattr ''get_funcargs'' = Inr get_funcargs" by (simp add: getattr_def)
  have 6: "get_funcargs call_facade = Inr (PyStr ''${1:a}, b=${2:5}'')"
    by code_simp
  from working 5 6
  have 7: "get call_facade ''funcargs'' = (Inr (PyStr ''${1:a}, b=${2:5}''), [])"
    by (elim conjE allE [of _ get_funcargs] allE [of _ "PyStr ''${1:a}, b=${2:5}''"]) simp
  from 1 2 3 4 5 6 7 show ?thesis by simp
qed

end
